theory Spec2Isabelle
  imports Main "HOL-Library.Word"
begin

section \<open>Data model\<close>

text \<open>
  Go's \<open>error\<close> values are modelled by their message. A Go \<open>int\<close> and a
  \<open>time.Duration\<close> (an \<open>int64\<close> count of nanoseconds) are 64-bit words, as on the
  64-bit targets of the Go toolchain; arithmetic on them wraps and comparisons read them
  signed (\<open>sint\<close>). A \<open>time.Time\<close> is the number of nanoseconds since Go's zero
  instant, so that \<open>Time{}\<close> is \<open>0\<close>.
\<close>

type_synonym go_error = string
type_synonym Duration = "64 word"
type_synonym Time = int

definition Second :: Duration where
  "Second = 1000000000"

definition Minute :: Duration where
  "Minute = 60 * Second"

definition Hour :: Duration where
  "Hour = 60 * Minute"

definition IsZero :: "Time \<Rightarrow> bool" where
  "IsZero t = (t = 0)"

definition Before :: "Time \<Rightarrow> Time \<Rightarrow> bool" where
  "Before t u = (t < u)"

definition After :: "Time \<Rightarrow> Time \<Rightarrow> bool" where
  "After t u = (u < t)"

definition Add :: "Time \<Rightarrow> Duration \<Rightarrow> Time" where
  "Add t d = t + sint d"

definition maxDuration :: int where
  "maxDuration = 2 ^ 63 - 1"

definition minDuration :: int where
  "minDuration = - (2 ^ 63)"

text \<open>\<open>Time.Sub\<close> saturates at the largest and smallest \<open>Duration\<close>.\<close>

definition Sub :: "Time \<Rightarrow> Time \<Rightarrow> Duration" where
  "Sub t u =
     (if maxDuration < t - u then word_of_int maxDuration
      else if t - u < minDuration then word_of_int minDuration
      else word_of_int (t - u))"

datatype ContentType =
    AuditAzureActiveDirectory
  | AuditExchange
  | AuditSharePoint
  | AuditGeneral
  | DLPAll

definition contentTypes :: "(string \<times> ContentType) list" where
  "contentTypes =
     [(''Audit.AzureActiveDirectory'', AuditAzureActiveDirectory),
      (''Audit.Exchange'', AuditExchange),
      (''Audit.SharePoint'', AuditSharePoint),
      (''Audit.General'', AuditGeneral),
      (''DLP.All'', DLPAll)]"

definition GetContentType :: "string \<Rightarrow> go_error + ContentType" where
  "GetContentType s =
     (case map_of contentTypes s of
        Some v \<Rightarrow> Inr v
      | None \<Rightarrow> Inl ''ContentType invalid'')"

record AuditRecord =
  ID :: "string option"
  RecordType :: "int option"
  CreationTime :: "string option"
  Operation :: "string option"
  OrganizationID :: "string option"
  UserType :: "int option"
  UserKey :: "string option"
  Workload :: "string option"
  ResultStatus :: "string option"
  ObjectID :: "string option"
  UserID :: "string option"
  ClientIP :: "string option"
  Scope :: "int option"

text \<open>
  Modelled from the spec: the declarations of \<open>Subscription\<close>, \<open>Content\<close>,
  \<open>Resource\<close> and of the constants \<open>contentTypeCount\<close> and \<open>intervalOneDay\<close> are
  not among the source files. A subscription carries its content-type string; a content
  descriptor carries \<open>ContentID\<close> and \<open>ContentCreated\<close>; a Resource bundles a Request
  part (content type and request time), a Response part (a sequence of audit records) and
  an error list. The content type of a request is a pointer in the source (it is passed
  to \<open>setBusy(ct *ContentType)\<close>), so it is an option here, \<open>None\<close> for \<open>nil\<close>;
  the Request and Response parts of a fresh \<open>Resource{}\<close> are unset.
\<close>

record Subscription =
  SubscriptionContentType :: string

record Content =
  ContentID :: string
  ContentCreated :: string

record ResourceRequest =
  RequestContentType :: "ContentType option"
  RequestTime :: Time

record Resource =
  Request :: "ResourceRequest option"
  Response :: "AuditRecord list option"
  Errors :: "go_error list"

definition emptyResource :: Resource where
  "emptyResource = \<lparr>Request = None, Response = None, Errors = []\<rparr>"

definition AddError :: "Resource \<Rightarrow> go_error \<Rightarrow> Resource" where
  "AddError r err = r\<lparr>Errors := Errors r @ [err]\<rparr>"

definition SetRequest :: "Resource \<Rightarrow> ContentType \<Rightarrow> Time \<Rightarrow> Resource" where
  "SetRequest r ct t =
     r\<lparr>Request := Some \<lparr>RequestContentType = Some ct, RequestTime = t\<rparr>\<rparr>"

definition SetResponse :: "Resource \<Rightarrow> AuditRecord list \<Rightarrow> Resource" where
  "SetResponse r records = r\<lparr>Response := Some records\<rparr>"

definition contentTypeCount :: nat where
  "contentTypeCount = 5"

definition intervalOneDay :: Duration where
  "intervalOneDay = 24 * Hour"

section \<open>The watcher and its state store\<close>

record SubscriptionWatcherConfig =
  LookBehindMinutes :: "64 word"
  TickerIntervalSeconds :: "64 word"

record SubscriptionWatcher =
  config :: SubscriptionWatcherConfig
  queue :: "Resource list"
  contentTypeBusy :: "ContentType \<rightharpoonup> bool"
  lastContentCreated :: "ContentType \<rightharpoonup> Time"
  lastRequestTime :: "ContentType \<rightharpoonup> Time"

definition NewSubscriptionWatcher ::
  "SubscriptionWatcherConfig \<Rightarrow> go_error + SubscriptionWatcher" where
  "NewSubscriptionWatcher conf =
     (let lookBehindDur = LookBehindMinutes conf * Minute in
      if sint lookBehindDur \<le> 0 then
        Inl ''lookBehindMinutes must be greater than 0''
      else if sint (24 * Hour) < sint lookBehindDur then
        Inl ''lookBehindMinutes must be less than or equal to 24 hours''
      else
        let tickerIntervalDur = TickerIntervalSeconds conf * Second in
        if sint tickerIntervalDur \<le> 0 then
          Inl ''tickerIntervalSeconds must be greater than 0''
        else if sint Hour < sint tickerIntervalDur then
          Inl ''tickerIntervalSeconds must be less than or equal to 1 hour''
        else
          Inr \<lparr>config = conf, queue = [], contentTypeBusy = Map.empty,
               lastContentCreated = Map.empty, lastRequestTime = Map.empty\<rparr>)"

definition sendResourceOrSkip :: "SubscriptionWatcher \<Rightarrow> Resource \<Rightarrow> SubscriptionWatcher" where
  "sendResourceOrSkip s r =
     (if length (queue s) < contentTypeCount then s\<lparr>queue := queue s @ [r]\<rparr> else s)"

definition isBusy :: "SubscriptionWatcher \<Rightarrow> ContentType \<Rightarrow> bool \<times> SubscriptionWatcher" where
  "isBusy s ct =
     (case contentTypeBusy s ct of
        None \<Rightarrow> (False, s\<lparr>contentTypeBusy := (contentTypeBusy s)(ct \<mapsto> False)\<rparr>)
      | Some busy \<Rightarrow> (busy, s))"

definition setBusy :: "SubscriptionWatcher \<Rightarrow> ContentType \<Rightarrow> SubscriptionWatcher" where
  "setBusy s ct = s\<lparr>contentTypeBusy := (contentTypeBusy s)(ct \<mapsto> True)\<rparr>"

definition unsetBusy :: "SubscriptionWatcher \<Rightarrow> ContentType \<Rightarrow> SubscriptionWatcher" where
  "unsetBusy s ct = s\<lparr>contentTypeBusy := (contentTypeBusy s)(ct \<mapsto> False)\<rparr>"

definition setLastContentCreated ::
  "SubscriptionWatcher \<Rightarrow> ContentType \<Rightarrow> Time \<Rightarrow> SubscriptionWatcher" where
  "setLastContentCreated s ct t =
     (case lastContentCreated s ct of
        None \<Rightarrow> s\<lparr>lastContentCreated := (lastContentCreated s)(ct \<mapsto> t)\<rparr>
      | Some last_t \<Rightarrow>
          if Before last_t t then s\<lparr>lastContentCreated := (lastContentCreated s)(ct \<mapsto> t)\<rparr>
          else s)"

definition getLastContentCreated :: "SubscriptionWatcher \<Rightarrow> ContentType \<Rightarrow> Time" where
  "getLastContentCreated s ct = (case lastContentCreated s ct of None \<Rightarrow> 0 | Some t \<Rightarrow> t)"

definition setLastRequestTime ::
  "SubscriptionWatcher \<Rightarrow> ContentType \<Rightarrow> Time \<Rightarrow> SubscriptionWatcher" where
  "setLastRequestTime s ct t =
     (case lastRequestTime s ct of
        None \<Rightarrow> s\<lparr>lastRequestTime := (lastRequestTime s)(ct \<mapsto> t)\<rparr>
      | Some last_t \<Rightarrow>
          if Before last_t t then s\<lparr>lastRequestTime := (lastRequestTime s)(ct \<mapsto> t)\<rparr>
          else s)"

definition getLastRequestTime :: "SubscriptionWatcher \<Rightarrow> ContentType \<Rightarrow> Time" where
  "getLastRequestTime s ct = (case lastRequestTime s ct of None \<Rightarrow> 0 | Some t \<Rightarrow> t)"

section \<open>Generator\<close>

text \<open>
  The body of one tick (the goroutine spawned for the tick instant \<open>t\<close>). The result of
  \<open>Subscriptions.List\<close> is an input. One \<open>resource\<close> variable is declared before the
  loop over the subscriptions and is passed on from one iteration to the next; a send
  copies its current value into the bus. The tick is taken as one step against the state
  store: the interleaving with the fetchers and the sharing of a slice's backing array
  between the copies of a Resource are outside the model.
\<close>

definition subscriptionStep ::
  "Time \<Rightarrow> Resource \<times> SubscriptionWatcher \<Rightarrow> Subscription \<Rightarrow> Resource \<times> SubscriptionWatcher" where
  "subscriptionStep t acc sub =
     (case acc of (resource, s) \<Rightarrow>
        (case GetContentType (SubscriptionContentType sub) of
           Inl err \<Rightarrow>
             (let resource' = AddError resource err
              in (resource', sendResourceOrSkip s resource'))
         | Inr ct \<Rightarrow>
             (case isBusy s ct of (busy, s') \<Rightarrow>
                if busy then (resource, s')
                else
                  (let resource' = SetRequest resource ct t
                   in (resource', sendResourceOrSkip s' resource')))))"

fun subscriptionLoop ::
  "Time \<Rightarrow> Subscription list \<Rightarrow> Resource \<times> SubscriptionWatcher \<Rightarrow> Resource \<times> SubscriptionWatcher" where
  "subscriptionLoop t [] acc = acc"
| "subscriptionLoop t (sub # subs) acc = subscriptionLoop t subs (subscriptionStep t acc sub)"

definition generatorTick ::
  "SubscriptionWatcher \<Rightarrow> go_error + Subscription list \<Rightarrow> Time \<Rightarrow> SubscriptionWatcher" where
  "generatorTick s listed t =
     (let resource = emptyResource in
      case listed of
        Inl err \<Rightarrow> sendResourceOrSkip s (AddError resource err)
      | Inr subscriptions \<Rightarrow> snd (subscriptionLoop t subscriptions (resource, s)))"

section \<open>Fetcher\<close>

text \<open>
  The HTTP client is an input of a fetch: \<open>ContentList\<close> answers
  \<open>Content.List(ctx, contentType, start, end)\<close> and \<open>AuditList\<close> answers
  \<open>Audit.List(ctx, contentID)\<close>, each with an error or a result. The parser of
  \<open>ContentCreated\<close> (\<open>time.ParseInLocation\<close> with the creation-datetime format in
  local time, whose format constant is not among the source files) is a parameter.
  A fetch records the calls it makes to the client.
\<close>

record Client =
  ContentList :: "ContentType \<Rightarrow> Time \<Rightarrow> Time \<Rightarrow> go_error + Content list"
  AuditList :: "string \<Rightarrow> go_error + AuditRecord list"

datatype Call =
    ContentListCall ContentType Time Time
  | AuditListCall string

datatype fault = NilPointerDereference

record FetchAcc =
  watcher :: SubscriptionWatcher
  resource :: Resource
  records :: "AuditRecord list"
  calls :: "Call list"

definition fetchWindow :: "SubscriptionWatcherConfig \<Rightarrow> Time \<Rightarrow> Time \<Rightarrow> Time \<times> Time" where
  "fetchWindow conf lastRequest requestTime =
     (let start = lastRequest;
          end = requestTime;
          delta = Sub start requestTime
      in if IsZero start \<or> sint delta < sint Minute then
           (let lookBehind = LookBehindMinutes conf * Minute
            in (Add requestTime (- lookBehind), end))
         else if sint intervalOneDay < sint delta then
           (Add requestTime (- intervalOneDay), end)
         else (start, end))"

text \<open>
  One iteration of the loop over the content descriptors. \<open>lastCreated\<close> is the local
  variable read once before the listing; the loop compares against it and never assigns
  it.
\<close>

definition contentStep ::
  "(string \<Rightarrow> go_error + Time) \<Rightarrow> Client \<Rightarrow> ContentType \<Rightarrow> Time \<Rightarrow> FetchAcc \<Rightarrow> Content \<Rightarrow> FetchAcc" where
  "contentStep parse client ct lastCreated acc c =
     (case parse (ContentCreated c) of
        Inl err \<Rightarrow> acc\<lparr>resource := AddError (resource acc) err\<rparr>
      | Inr created \<Rightarrow>
          if \<not> After created lastCreated then acc
          else
            (let s' = setLastContentCreated (watcher acc) ct created;
                 calls' = calls acc @ [AuditListCall (ContentID c)]
             in case AuditList client (ContentID c) of
                  Inl err \<Rightarrow>
                    acc\<lparr>watcher := s', resource := AddError (resource acc) err, calls := calls'\<rparr>
                | Inr audits \<Rightarrow>
                    acc\<lparr>watcher := s', records := records acc @ audits, calls := calls'\<rparr>))"

fun contentLoop ::
  "(string \<Rightarrow> go_error + Time) \<Rightarrow> Client \<Rightarrow> ContentType \<Rightarrow> Time \<Rightarrow> Content list \<Rightarrow> FetchAcc \<Rightarrow> FetchAcc" where
  "contentLoop parse client ct lastCreated [] acc = acc"
| "contentLoop parse client ct lastCreated (c # content) acc =
     contentLoop parse client ct lastCreated content (contentStep parse client ct lastCreated acc c)"

text \<open>
  The result of one iteration of the fetcher's loop on a received Resource \<open>r\<close>: the
  state store afterwards, the output channel (the Resources sent on it so far) and the
  client calls made, or the runtime panic of dereferencing \<open>r.Request.ContentType\<close>
  when the Request or its content type is \<open>nil\<close>. Every later use in the iteration is
  of the same pointer, so the check stands at the first use.
\<close>

record FetchResult =
  watcherAfter :: SubscriptionWatcher
  out :: "Resource list"
  clientCalls :: "Call list"

definition fetcherIteration ::
  "(string \<Rightarrow> go_error + Time) \<Rightarrow> Client \<Rightarrow> SubscriptionWatcher \<Rightarrow> Resource list \<Rightarrow> Resource
     \<Rightarrow> fault + FetchResult" where
  "fetcherIteration parse client s outChan r =
     (case Request r of
        None \<Rightarrow> Inl NilPointerDereference
      | Some request \<Rightarrow>
          (case RequestContentType request of
             None \<Rightarrow> Inl NilPointerDereference
           | Some ct \<Rightarrow>
               (let s1 = setBusy s ct;
                    lastRequest = getLastRequestTime s1 ct;
                    lastCreated = getLastContentCreated s1 ct;
                    window = fetchWindow (config s1) lastRequest (RequestTime request);
                    listCall = ContentListCall ct (fst window) (snd window)
                in case ContentList client ct (fst window) (snd window) of
                     Inl err \<Rightarrow>
                       Inr \<lparr>watcherAfter = unsetBusy s1 ct,
                            out = outChan @ [AddError r err],
                            clientCalls = [listCall]\<rparr>
                   | Inr content \<Rightarrow>
                       (let s2 = setLastRequestTime s1 ct (RequestTime request);
                            acc = contentLoop parse client ct lastCreated content
                                    \<lparr>watcher = s2, resource = r, records = [], calls = [listCall]\<rparr>
                        in Inr \<lparr>watcherAfter = unsetBusy (watcher acc) ct,
                                out = outChan @ [SetResponse (resource acc) (records acc)],
                                clientCalls = calls acc\<rparr>))))"

text \<open>
  A fetcher receives the Resource at the head of the bus; \<open>None\<close> when the bus is
  empty and the fetcher waits.
\<close>

definition fetcherReceive ::
  "(string \<Rightarrow> go_error + Time) \<Rightarrow> Client \<Rightarrow> SubscriptionWatcher \<Rightarrow> Resource list
     \<Rightarrow> (fault + FetchResult) option" where
  "fetcherReceive parse client s outChan =
     (case queue s of
        [] \<Rightarrow> None
      | r # rest \<Rightarrow> Some (fetcherIteration parse client (s\<lparr>queue := rest\<rparr>) outChan r))"

section \<open>A sequential run of the watcher\<close>

text \<open>
  \<open>Run\<close> starts the generator and the fetchers as goroutines. Here a run is a sequence
  of whole steps, each taken alone: a tick of the generator with the answer of
  \<open>Subscriptions.List\<close>, or a fetcher receiving from the bus and working with the client
  answers of that moment. A panic ends the run.
\<close>

datatype Event =
    TickEvent "go_error + Subscription list" Time
  | FetchEvent Client

fun runEvents ::
  "(string \<Rightarrow> go_error + Time) \<Rightarrow> Event list \<Rightarrow> SubscriptionWatcher \<times> Resource list
     \<Rightarrow> fault + SubscriptionWatcher \<times> Resource list" where
  "runEvents parse [] st = Inr st"
| "runEvents parse (TickEvent listed t # es) st =
     runEvents parse es (generatorTick (fst st) listed t, snd st)"
| "runEvents parse (FetchEvent client # es) st =
     (case fetcherReceive parse client (fst st) (snd st) of
        None \<Rightarrow> runEvents parse es st
      | Some (Inl f) \<Rightarrow> Inl f
      | Some (Inr res) \<Rightarrow> runEvents parse es (watcherAfter res, out res))"

section \<open>What one descriptor contributes\<close>

text \<open>
  The errors, records and client calls that the loop body adds for a descriptor \<open>c\<close>,
  read off \<open>contentStep\<close>; \<open>contentLoop_outcome\<close> below proves that the loop adds
  exactly these, descriptor by descriptor.
\<close>

definition descriptorErrors ::
  "(string \<Rightarrow> go_error + Time) \<Rightarrow> Client \<Rightarrow> Time \<Rightarrow> Content \<Rightarrow> go_error list" where
  "descriptorErrors parse client lastCreated c =
     (case parse (ContentCreated c) of
        Inl err \<Rightarrow> [err]
      | Inr created \<Rightarrow>
          if \<not> After created lastCreated then []
          else (case AuditList client (ContentID c) of Inl err \<Rightarrow> [err] | Inr audits \<Rightarrow> []))"

definition descriptorRecords ::
  "(string \<Rightarrow> go_error + Time) \<Rightarrow> Client \<Rightarrow> Time \<Rightarrow> Content \<Rightarrow> AuditRecord list" where
  "descriptorRecords parse client lastCreated c =
     (case parse (ContentCreated c) of
        Inl err \<Rightarrow> []
      | Inr created \<Rightarrow>
          if \<not> After created lastCreated then []
          else (case AuditList client (ContentID c) of Inl err \<Rightarrow> [] | Inr audits \<Rightarrow> audits))"

definition descriptorCalls ::
  "(string \<Rightarrow> go_error + Time) \<Rightarrow> Time \<Rightarrow> Content \<Rightarrow> Call list" where
  "descriptorCalls parse lastCreated c =
     (case parse (ContentCreated c) of
        Inl err \<Rightarrow> []
      | Inr created \<Rightarrow>
          if \<not> After created lastCreated then [] else [AuditListCall (ContentID c)])"

text \<open>The stored \<open>lastContentCreated\<close> of a content type is set and is at least \<open>t\<close>.\<close>

definition watermarkAtLeast :: "SubscriptionWatcher \<Rightarrow> ContentType \<Rightarrow> Time \<Rightarrow> bool" where
  "watermarkAtLeast s ct t =
     (case lastContentCreated s ct of None \<Rightarrow> False | Some v \<Rightarrow> t \<le> v)"

text \<open>
  An emitted Resource carries a Request whose content type is set, and either a response
  set by \<open>SetResponse\<close> (its record list may be empty) or at least one error.
\<close>

definition emissionOk :: "Resource \<Rightarrow> bool" where
  "emissionOk r =
     ((case Request r of
         None \<Rightarrow> False
       | Some request \<Rightarrow> (case RequestContentType request of None \<Rightarrow> False | Some ct \<Rightarrow> True))
      \<and> (case Response r of Some recs \<Rightarrow> True | None \<Rightarrow> Errors r \<noteq> []))"

section \<open>Example inputs\<close>

text \<open>
  The instant \<open>2024-01-01T h:m:00Z\<close> in nanoseconds since Go's zero instant, a parser
  that knows four creation timestamps, and the watcher state after the cold start of the
  specification's scenario A.
\<close>

definition clock :: "int \<Rightarrow> int \<Rightarrow> Time" where
  "clock h m = 63839664000000000000 + (h * 60 + m) * 60000000000"

definition exampleParse :: "string \<Rightarrow> go_error + Time" where
  "exampleParse str =
     (case map_of
        [(''2024-01-01T11:30:00.000Z'', clock 11 30),
         (''2024-01-01T12:01:00.000Z'', clock 12 1),
         (''2024-01-01T12:02:00.000Z'', clock 12 2),
         (''2024-01-01T12:03:00.000Z'', clock 12 3)] str of
        Some t \<Rightarrow> Inr t
      | None \<Rightarrow> Inl ''cannot parse'')"

definition exampleConfig :: SubscriptionWatcherConfig where
  "exampleConfig = \<lparr>LookBehindMinutes = 60, TickerIntervalSeconds = 300\<rparr>"

definition freshWatcher :: SubscriptionWatcher where
  "freshWatcher =
     \<lparr>config = exampleConfig, queue = [], contentTypeBusy = Map.empty,
      lastContentCreated = Map.empty, lastRequestTime = Map.empty\<rparr>"

definition warmWatcher :: SubscriptionWatcher where
  "warmWatcher =
     \<lparr>config = exampleConfig, queue = [],
      contentTypeBusy = [AuditExchange \<mapsto> False],
      lastContentCreated = [AuditExchange \<mapsto> clock 11 30],
      lastRequestTime = [AuditExchange \<mapsto> clock 12 0]\<rparr>"

definition exchangeRequest :: "Time \<Rightarrow> Resource" where
  "exchangeRequest t =
     \<lparr>Request = Some \<lparr>RequestContentType = Some AuditExchange, RequestTime = t\<rparr>,
      Response = None, Errors = []\<rparr>"

definition auditRecord :: "string \<Rightarrow> AuditRecord" where
  "auditRecord i =
     \<lparr>ID = Some i, RecordType = None, CreationTime = None, Operation = None,
      OrganizationID = None, UserType = None, UserKey = None, Workload = None,
      ResultStatus = None, ObjectID = None, UserID = None, ClientIP = None, Scope = None\<rparr>"

definition descriptor :: "string \<Rightarrow> string \<Rightarrow> Content" where
  "descriptor i created = \<lparr>ContentID = i, ContentCreated = created\<rparr>"

definition emptyClient :: Client where
  "emptyClient = \<lparr>ContentList = (\<lambda>ct start end. Inr []), AuditList = (\<lambda>i. Inr [])\<rparr>"

definition failingClient :: Client where
  "failingClient =
     \<lparr>ContentList = (\<lambda>ct start end. Inl ''transport error''), AuditList = (\<lambda>i. Inr [])\<rparr>"

definition unorderedClient :: Client where
  "unorderedClient =
     \<lparr>ContentList = (\<lambda>ct start end.
        Inr [descriptor ''C2'' ''2024-01-01T12:02:00.000Z'',
             descriptor ''C1'' ''2024-01-01T12:01:00.000Z'']),
      AuditList = (\<lambda>i. Inr [auditRecord i])\<rparr>"

definition flakyClient :: Client where
  "flakyClient =
     \<lparr>ContentList = (\<lambda>ct start end.
        Inr [descriptor ''C1'' ''2024-01-01T12:01:00.000Z'',
             descriptor ''C2'' ''2024-01-01T12:02:00.000Z'']),
      AuditList = (\<lambda>i. if i = ''C1'' then Inl ''audit error'' else Inr [auditRecord i])\<rparr>"

definition recoveredClient :: Client where
  "recoveredClient =
     \<lparr>ContentList = (\<lambda>ct start end.
        Inr [descriptor ''C1'' ''2024-01-01T12:01:00.000Z'',
             descriptor ''C3'' ''2024-01-01T12:03:00.000Z'']),
      AuditList = (\<lambda>i. Inr [auditRecord i])\<rparr>"

text \<open>
  The accumulator with which the descriptor loop starts in the fetch of the 12:05 request
  on \<open>warmWatcher\<close>, after the listing has succeeded.
\<close>

definition warmStart :: FetchAcc where
  "warmStart =
     \<lparr>watcher = setLastRequestTime (setBusy warmWatcher AuditExchange) AuditExchange (clock 12 5),
      resource = exchangeRequest (clock 12 5),
      records = [],
      calls = [ContentListCall AuditExchange (clock 11 5) (clock 12 5)]\<rparr>"

text \<open>
  The accumulator of that fetch before and after the second descriptor, when the listing
  is the one of \<open>unorderedClient\<close>.
\<close>

definition unorderedBefore :: FetchAcc where
  "unorderedBefore =
     contentLoop exampleParse unorderedClient AuditExchange (clock 11 30)
       [descriptor ''C2'' ''2024-01-01T12:02:00.000Z''] warmStart"

definition unorderedAfter :: FetchAcc where
  "unorderedAfter =
     contentStep exampleParse unorderedClient AuditExchange (clock 11 30) unorderedBefore
       (descriptor ''C1'' ''2024-01-01T12:01:00.000Z'')"

text \<open>
  The result of the 12:05 fetch on \<open>warmWatcher\<close> with \<open>flakyClient\<close>, and the watcher
  after the tick of 12:10 that follows it.
\<close>

definition flakyResult :: FetchResult where
  "flakyResult =
     \<lparr>watcherAfter =
        warmWatcher\<lparr>lastContentCreated := [AuditExchange \<mapsto> clock 12 2],
                    lastRequestTime := [AuditExchange \<mapsto> clock 12 5]\<rparr>,
      out = [(exchangeRequest (clock 12 5))
               \<lparr>Response := Some [auditRecord ''C2''], Errors := [''audit error'']\<rparr>],
      clientCalls =
        [ContentListCall AuditExchange (clock 11 5) (clock 12 5),
         AuditListCall ''C1'', AuditListCall ''C2'']\<rparr>"

definition laterWatcher :: SubscriptionWatcher where
  "laterWatcher = (watcherAfter flakyResult)\<lparr>queue := [exchangeRequest (clock 12 10)]\<rparr>"

section \<open>Properties\<close>

lemma sint_Minute: "sint Minute = 60000000000"
  by (simp add: Minute_def Second_def)

lemma lastRequestTime_set:
  "lastRequestTime (setLastRequestTime s ct t) ct' =
     (if ct' = ct then Some (case lastRequestTime s ct of None \<Rightarrow> t | Some v \<Rightarrow> max v t)
      else lastRequestTime s ct')"
  by (auto simp: setLastRequestTime_def Before_def max_def split: option.splits)

lemma lastContentCreated_set:
  "lastContentCreated (setLastContentCreated s ct t) ct' =
     (if ct' = ct then Some (case lastContentCreated s ct of None \<Rightarrow> t | Some v \<Rightarrow> max v t)
      else lastContentCreated s ct')"
  by (auto simp: setLastContentCreated_def Before_def max_def split: option.splits)

text \<open>
  C6. After \<open>setLastRequestTime\<close> or \<open>setLastContentCreated\<close> with incoming value
  \<open>t\<close>, the value stored for the content type is the maximum of the value stored
  before and \<open>t\<close>, and \<open>t\<close> itself when nothing was stored; the entries of the other
  content types are as before. Hence a stored value \<open>v\<close> is followed by a stored value
  at least \<open>v\<close>: the stored values of a content type never decrease.
\<close>

theorem watermark_setters_store_maximum:
  "lastRequestTime (setLastRequestTime s ct t) ct =
     Some (case lastRequestTime s ct of None \<Rightarrow> t | Some v \<Rightarrow> max v t)
   \<and> lastContentCreated (setLastContentCreated s ct t) ct =
     Some (case lastContentCreated s ct of None \<Rightarrow> t | Some v \<Rightarrow> max v t)
   \<and> (case lastRequestTime s ct of None \<Rightarrow> True
       | Some v \<Rightarrow> v \<le> getLastRequestTime (setLastRequestTime s ct t) ct)
   \<and> (case lastContentCreated s ct of None \<Rightarrow> True
       | Some v \<Rightarrow> v \<le> getLastContentCreated (setLastContentCreated s ct t) ct)
   \<and> (if ct' = ct then True
       else lastRequestTime (setLastRequestTime s ct t) ct' = lastRequestTime s ct'
          \<and> lastContentCreated (setLastContentCreated s ct t) ct' = lastContentCreated s ct')"
  by (simp add: lastRequestTime_set lastContentCreated_set getLastRequestTime_def
      getLastContentCreated_def split: option.splits)

lemma contentStep_resource_frame:
  "Request (resource (contentStep parse client ct w acc c)) = Request (resource acc)
   \<and> Response (resource (contentStep parse client ct w acc c)) = Response (resource acc)"
  by (simp add: contentStep_def AddError_def Let_def split: sum.splits)

lemma contentStep_errors:
  "Errors (resource (contentStep parse client ct w acc c)) =
     Errors (resource acc) @ descriptorErrors parse client w c"
  by (simp add: contentStep_def descriptorErrors_def AddError_def Let_def split: sum.splits)

lemma contentStep_records:
  "records (contentStep parse client ct w acc c) =
     records acc @ descriptorRecords parse client w c"
  by (simp add: contentStep_def descriptorRecords_def Let_def split: sum.splits)

lemma contentStep_calls:
  "calls (contentStep parse client ct w acc c) = calls acc @ descriptorCalls parse w c"
  by (simp add: contentStep_def descriptorCalls_def Let_def split: sum.splits)

lemma setLastContentCreated_frame:
  "config (setLastContentCreated s ct t) = config s
   \<and> queue (setLastContentCreated s ct t) = queue s
   \<and> contentTypeBusy (setLastContentCreated s ct t) = contentTypeBusy s
   \<and> lastRequestTime (setLastContentCreated s ct t) = lastRequestTime s"
  by (simp add: setLastContentCreated_def split: option.splits)

lemma contentStep_watcher_frame:
  "config (watcher (contentStep parse client ct w acc c)) = config (watcher acc)
   \<and> queue (watcher (contentStep parse client ct w acc c)) = queue (watcher acc)
   \<and> contentTypeBusy (watcher (contentStep parse client ct w acc c)) = contentTypeBusy (watcher acc)
   \<and> lastRequestTime (watcher (contentStep parse client ct w acc c)) = lastRequestTime (watcher acc)"
  by (simp add: contentStep_def Let_def setLastContentCreated_frame split: sum.splits)

lemma contentLoop_append:
  "contentLoop parse client ct w (xs @ ys) acc =
     contentLoop parse client ct w ys (contentLoop parse client ct w xs acc)"
  by (induction xs arbitrary: acc) simp_all

lemma contentLoop_outcome:
  "Request (resource (contentLoop parse client ct w content acc)) = Request (resource acc)
   \<and> Response (resource (contentLoop parse client ct w content acc)) = Response (resource acc)
   \<and> Errors (resource (contentLoop parse client ct w content acc)) =
       Errors (resource acc) @ concat (map (descriptorErrors parse client w) content)
   \<and> records (contentLoop parse client ct w content acc) =
       records acc @ concat (map (descriptorRecords parse client w) content)
   \<and> calls (contentLoop parse client ct w content acc) =
       calls acc @ concat (map (descriptorCalls parse w) content)"
  by (induction content arbitrary: acc)
    (simp_all add: contentStep_resource_frame contentStep_errors contentStep_records contentStep_calls)

lemma contentLoop_watcher_frame:
  "config (watcher (contentLoop parse client ct w content acc)) = config (watcher acc)
   \<and> queue (watcher (contentLoop parse client ct w content acc)) = queue (watcher acc)
   \<and> contentTypeBusy (watcher (contentLoop parse client ct w content acc)) = contentTypeBusy (watcher acc)
   \<and> lastRequestTime (watcher (contentLoop parse client ct w content acc)) = lastRequestTime (watcher acc)"
  by (induction content arbitrary: acc) (simp_all add: contentStep_watcher_frame)

lemma setBusy_frame:
  "config (setBusy s ct) = config s \<and> queue (setBusy s ct) = queue s
   \<and> lastContentCreated (setBusy s ct) = lastContentCreated s
   \<and> lastRequestTime (setBusy s ct) = lastRequestTime s
   \<and> getLastRequestTime (setBusy s ct) ct' = getLastRequestTime s ct'
   \<and> getLastContentCreated (setBusy s ct) ct' = getLastContentCreated s ct'"
  by (simp add: setBusy_def getLastRequestTime_def getLastContentCreated_def)

lemma unsetBusy_frame:
  "config (unsetBusy s ct) = config s \<and> queue (unsetBusy s ct) = queue s
   \<and> lastContentCreated (unsetBusy s ct) = lastContentCreated s
   \<and> lastRequestTime (unsetBusy s ct) = lastRequestTime s
   \<and> contentTypeBusy (unsetBusy s ct) ct = Some False"
  by (simp add: unsetBusy_def)

lemma fetcherIteration_nil:
  "Request r = None \<Longrightarrow> fetcherIteration parse client s outChan r = Inl NilPointerDereference"
  "Request r = Some request \<Longrightarrow> RequestContentType request = None \<Longrightarrow>
     fetcherIteration parse client s outChan r = Inl NilPointerDereference"
  by (simp_all add: fetcherIteration_def)

lemma fetcherIteration_list_failed:
  assumes "Request r = Some request" and "RequestContentType request = Some ct"
    and "window = fetchWindow (config s) (getLastRequestTime s ct) (RequestTime request)"
    and "ContentList client ct (fst window) (snd window) = Inl err"
  shows "fetcherIteration parse client s outChan r =
           Inr \<lparr>watcherAfter = unsetBusy (setBusy s ct) ct,
                out = outChan @ [AddError r err],
                clientCalls = [ContentListCall ct (fst window) (snd window)]\<rparr>"
  using assms by (simp add: fetcherIteration_def Let_def setBusy_frame)

lemma fetcherIteration_listed:
  assumes "Request r = Some request" and "RequestContentType request = Some ct"
    and "window = fetchWindow (config s) (getLastRequestTime s ct) (RequestTime request)"
    and "ContentList client ct (fst window) (snd window) = Inr content"
    and "acc = contentLoop parse client ct (getLastContentCreated s ct) content
                 \<lparr>watcher = setLastRequestTime (setBusy s ct) ct (RequestTime request),
                  resource = r, records = [], calls = [ContentListCall ct (fst window) (snd window)]\<rparr>"
  shows "fetcherIteration parse client s outChan r =
           Inr \<lparr>watcherAfter = unsetBusy (watcher acc) ct,
                out = outChan @ [SetResponse (resource acc) (records acc)],
                clientCalls = calls acc\<rparr>"
  using assms by (simp add: fetcherIteration_def Let_def setBusy_frame)

lemmas example_defs =
  clock_def exampleParse_def exampleConfig_def freshWatcher_def warmWatcher_def
  exchangeRequest_def auditRecord_def descriptor_def emptyClient_def failingClient_def
  unorderedClient_def flakyClient_def recoveredClient_def

lemmas time_defs =
  Second_def Minute_def Hour_def intervalOneDay_def IsZero_def Before_def After_def Add_def
  Sub_def maxDuration_def minDuration_def

text \<open>
  C4. When \<open>Content.List\<close> fails in a fetch of a Resource taken from the bus (its
  Request populated, no response yet), the fetcher sends exactly one Resource on the
  output: the received one with the error appended, the Request kept and the response
  still unset. It calls nothing else on the client, leaves \<open>lastRequestTime\<close> and
  \<open>lastContentCreated\<close> as they were and stores busy = false for the content type, so
  that \<open>isBusy\<close> answers false at the next tick.
\<close>

theorem content_list_failure_emits_error_resource:
  assumes "Request r = Some request" and "RequestContentType request = Some ct"
    and "Response r = None"
    and "ContentList client ct
           (fst (fetchWindow (config s) (getLastRequestTime s ct) (RequestTime request)))
           (snd (fetchWindow (config s) (getLastRequestTime s ct) (RequestTime request))) = Inl err"
  shows "\<exists>res emitted.
           fetcherIteration parse client s outChan r = Inr res
         \<and> out res = outChan @ [emitted]
         \<and> emitted = r\<lparr>Errors := Errors r @ [err]\<rparr>
         \<and> Request emitted = Some request
         \<and> Response emitted = None
         \<and> err \<in> set (Errors emitted)
         \<and> clientCalls res =
             [ContentListCall ct
                (fst (fetchWindow (config s) (getLastRequestTime s ct) (RequestTime request)))
                (snd (fetchWindow (config s) (getLastRequestTime s ct) (RequestTime request)))]
         \<and> lastRequestTime (watcherAfter res) = lastRequestTime s
         \<and> lastContentCreated (watcherAfter res) = lastContentCreated s
         \<and> contentTypeBusy (watcherAfter res) ct = Some False
         \<and> fst (isBusy (watcherAfter res) ct) = False"
proof -
  let ?w = "fetchWindow (config s) (getLastRequestTime s ct) (RequestTime request)"
  have run: "fetcherIteration parse client s outChan r =
               Inr \<lparr>watcherAfter = unsetBusy (setBusy s ct) ct,
                    out = outChan @ [AddError r err],
                    clientCalls = [ContentListCall ct (fst ?w) (snd ?w)]\<rparr>"
    using assms(1,2,4) by (rule fetcherIteration_list_failed [OF _ _ refl])
  have busy: "fst (isBusy (unsetBusy (setBusy s ct) ct) ct) = False"
    by (simp add: isBusy_def unsetBusy_def)
  show ?thesis
    using assms(1,3) busy
    by (simp add: run AddError_def unsetBusy_frame setBusy_frame)
qed

theorem content_list_failure_witness:
  "\<exists>res emitted.
     fetcherIteration exampleParse failingClient warmWatcher [] (exchangeRequest (clock 12 5)) = Inr res
   \<and> out res = [] @ [emitted]
   \<and> emitted = (exchangeRequest (clock 12 5))\<lparr>Errors := Errors (exchangeRequest (clock 12 5)) @ [''transport error'']\<rparr>
   \<and> Request emitted = Some \<lparr>RequestContentType = Some AuditExchange, RequestTime = clock 12 5\<rparr>
   \<and> Response emitted = None
   \<and> ''transport error'' \<in> set (Errors emitted)
   \<and> clientCalls res =
       [ContentListCall AuditExchange
          (fst (fetchWindow (config warmWatcher) (getLastRequestTime warmWatcher AuditExchange)
             (RequestTime \<lparr>RequestContentType = Some AuditExchange, RequestTime = clock 12 5\<rparr>)))
          (snd (fetchWindow (config warmWatcher) (getLastRequestTime warmWatcher AuditExchange)
             (RequestTime \<lparr>RequestContentType = Some AuditExchange, RequestTime = clock 12 5\<rparr>)))]
   \<and> lastRequestTime (watcherAfter res) = lastRequestTime warmWatcher
   \<and> lastContentCreated (watcherAfter res) = lastContentCreated warmWatcher
   \<and> contentTypeBusy (watcherAfter res) AuditExchange = Some False
   \<and> fst (isBusy (watcherAfter res) AuditExchange) = False"
  by (rule content_list_failure_emits_error_resource)
    (simp_all add: exchangeRequest_def failingClient_def)

text \<open>
  C1. When \<open>Subscriptions.List\<close> fails on a tick and the bus has room, the generator
  puts an error-only Resource on the bus: no Request, no response, the single error.
  The fetcher that receives it dereferences \<open>r.Request.ContentType\<close> in its first
  statement and panics, so the Resource is not processed and the run ends.
\<close>

theorem list_failure_resource_panics_fetcher:
  "queue (generatorTick (s\<lparr>queue := []\<rparr>) (Inl e) t) =
     [\<lparr>Request = None, Response = None, Errors = [e]\<rparr>]
   \<and> fetcherIteration parse client s' outChan \<lparr>Request = None, Response = None, Errors = [e]\<rparr> =
       Inl NilPointerDereference
   \<and> runEvents parse [TickEvent (Inl e) t, FetchEvent client] (s\<lparr>queue := []\<rparr>, outChan) =
       Inl NilPointerDereference"
  by (simp add: generatorTick_def sendResourceOrSkip_def contentTypeCount_def emptyResource_def
      AddError_def fetcherReceive_def fetcherIteration_def)

text \<open>
  C2. With the stored \<open>lastRequestTime\<close> at 12:00:00 and the request time at 12:05:00
  (look-behind 60 minutes), \<open>delta\<close> is stored minus request time, minus five minutes,
  which is below one minute: the window starts at request time minus the look-behind,
  11:05:00, and not at the stored time.
\<close>

theorem window_ignores_earlier_last_request_time:
  "fetchWindow exampleConfig (clock 12 0) (clock 12 5) = (clock 11 5, clock 12 5)
   \<and> getLastRequestTime warmWatcher AuditExchange = clock 12 0
   \<and> fetcherIteration exampleParse emptyClient warmWatcher [] (exchangeRequest (clock 12 5)) =
       Inr \<lparr>watcherAfter = warmWatcher\<lparr>lastRequestTime := [AuditExchange \<mapsto> clock 12 5]\<rparr>,
            out = [(exchangeRequest (clock 12 5))\<lparr>Response := Some []\<rparr>],
            clientCalls = [ContentListCall AuditExchange (clock 11 5) (clock 12 5)]\<rparr>"
  by (simp add: fetcherIteration_def fetchWindow_def example_defs time_defs
      getLastRequestTime_def getLastContentCreated_def setBusy_def unsetBusy_def
      setLastRequestTime_def SetResponse_def Let_def)

text \<open>
  C8. \<open>LookBehindMinutes = 2^53 + 1\<close> is far outside the bounds, yet its product with
  \<open>time.Minute\<close> wraps around in 64 bits to exactly one minute, and the watcher is
  constructed.
\<close>

theorem constructor_accepts_overflowing_look_behind:
  "NewSubscriptionWatcher \<lparr>LookBehindMinutes = 9007199254740993, TickerIntervalSeconds = 1\<rparr> =
     Inr \<lparr>config = \<lparr>LookBehindMinutes = 9007199254740993, TickerIntervalSeconds = 1\<rparr>,
          queue = [], contentTypeBusy = Map.empty,
          lastContentCreated = Map.empty, lastRequestTime = Map.empty\<rparr>
   \<and> LookBehindMinutes \<lparr>LookBehindMinutes = 9007199254740993, TickerIntervalSeconds = 1\<rparr> * Minute
       = Minute
   \<and> (1440 :: int) < sint (9007199254740993 :: 64 word)"
  by (simp add: NewSubscriptionWatcher_def Minute_def Second_def Hour_def)

text \<open>
  C3, as stated, fails: on a cold start whose content listing is empty the fetcher emits
  a Resource with an empty response and an empty error list.
\<close>

theorem emitted_resource_can_be_empty:
  "fetcherIteration exampleParse emptyClient freshWatcher [] (exchangeRequest (clock 12 0)) =
     Inr \<lparr>watcherAfter =
            freshWatcher\<lparr>contentTypeBusy := [AuditExchange \<mapsto> False],
                         lastRequestTime := [AuditExchange \<mapsto> clock 12 0]\<rparr>,
          out = [(exchangeRequest (clock 12 0))\<lparr>Response := Some []\<rparr>],
          clientCalls = [ContentListCall AuditExchange (clock 11 0) (clock 12 0)]\<rparr>
   \<and> Response ((exchangeRequest (clock 12 0))\<lparr>Response := Some []\<rparr>) = Some []
   \<and> Errors ((exchangeRequest (clock 12 0))\<lparr>Response := Some []\<rparr>) = []"
  by (simp add: fetcherIteration_def fetchWindow_def example_defs time_defs
      getLastRequestTime_def getLastContentCreated_def setBusy_def unsetBusy_def
      setLastRequestTime_def SetResponse_def Let_def)

lemma fetcherIteration_emits:
  assumes "fetcherIteration parse client s outChan r = Inr res"
  shows "\<exists>emitted. out res = outChan @ [emitted] \<and> emissionOk emitted"
proof (cases "Request r")
  case None
  with assms show ?thesis by (simp add: fetcherIteration_def)
next
  case (Some request)
  show ?thesis
  proof (cases "RequestContentType request")
    case None
    with Some assms show ?thesis by (simp add: fetcherIteration_def)
  next
    case ct: (Some ct)
    let ?w = "fetchWindow (config s) (getLastRequestTime s ct) (RequestTime request)"
    show ?thesis
    proof (cases "ContentList client ct (fst ?w) (snd ?w)")
      case (Inl err)
      from fetcherIteration_list_failed [OF Some ct refl Inl, of parse outChan] assms
      have "out res = outChan @ [AddError r err]" by auto
      moreover have "emissionOk (AddError r err)"
        using Some ct by (simp add: emissionOk_def AddError_def split: option.splits)
      ultimately show ?thesis by blast
    next
      case (Inr content)
      define acc where "acc = contentLoop parse client ct (getLastContentCreated s ct) content
                 \<lparr>watcher = setLastRequestTime (setBusy s ct) ct (RequestTime request),
                  resource = r, records = [], calls = [ContentListCall ct (fst ?w) (snd ?w)]\<rparr>"
      from fetcherIteration_listed [OF Some ct refl Inr acc_def, of outChan] assms
      have "out res = outChan @ [SetResponse (resource acc) (records acc)]" by auto
      moreover have "Request (resource acc) = Request r"
        unfolding acc_def by (simp add: contentLoop_outcome)
      then have "emissionOk (SetResponse (resource acc) (records acc))"
        using Some ct by (simp add: emissionOk_def SetResponse_def)
      ultimately show ?thesis by blast
    qed
  qed
qed

lemma runEvents_emissions:
  "runEvents parse events st = Inr st' \<Longrightarrow> list_all emissionOk (snd st)
     \<Longrightarrow> list_all emissionOk (snd st')"
proof (induction parse events st rule: runEvents.induct)
  case (1 parse st)
  then show ?case by simp
next
  case (2 parse listed t es st)
  then show ?case by simp
next
  case (3 parse client es st)
  show ?case
  proof (cases "fetcherReceive parse client (fst st) (snd st)")
    case None
    with 3 show ?thesis by simp
  next
    case (Some result)
    show ?thesis
    proof (cases result)
      case (Inl f)
      with Some 3 show ?thesis by simp
    next
      case (Inr res)
      from Some Inr obtain s0 where "fetcherIteration parse client s0 (snd st) (hd (queue (fst st))) = Inr res"
        by (auto simp: fetcherReceive_def split: list.splits)
      from fetcherIteration_emits [OF this] "3.prems"(2)
      have "list_all emissionOk (out res)" by auto
      with 3 Some Inr show ?thesis by simp
    qed
  qed
qed

lemmas store_defs =
  setBusy_def unsetBusy_def isBusy_def setLastRequestTime_def getLastRequestTime_def
  setLastContentCreated_def getLastContentCreated_def sendResourceOrSkip_def contentTypeCount_def

lemmas resource_defs = emptyResource_def AddError_def SetRequest_def SetResponse_def

lemma coldStart_tick:
  "generatorTick freshWatcher (Inr [\<lparr>SubscriptionContentType = ''Audit.Exchange''\<rparr>]) (clock 12 0) =
     freshWatcher\<lparr>queue := [exchangeRequest (clock 12 0)],
                  contentTypeBusy := [AuditExchange \<mapsto> False]\<rparr>"
  by (simp add: generatorTick_def subscriptionStep_def GetContentType_def contentTypes_def
      store_defs resource_defs freshWatcher_def exchangeRequest_def Let_def)

lemma emissionOk_iff:
  "emissionOk r =
     ((\<exists>request ct. Request r = Some request \<and> RequestContentType request = Some ct)
      \<and> ((\<exists>recs. Response r = Some recs) \<or> Errors r \<noteq> []))"
  by (cases "Request r"; cases "Response r")
    (auto simp: emissionOk_def split: option.splits)

text \<open>
  C3 (amended). Every Resource on the output of a run has a Request whose content type
  is set, and has a response set by the fetcher or a non-empty error list. The record
  list of the response may be empty while the error list is empty too.
\<close>

theorem emitted_resource_has_content_type:
  assumes "runEvents parse events (s, []) = Inr (s', outChan)"
  shows "\<forall>r \<in> set outChan.
           (\<exists>request ct. Request r = Some request \<and> RequestContentType request = Some ct)
         \<and> ((\<exists>recs. Response r = Some recs) \<or> Errors r \<noteq> [])"
proof -
  have "list_all emissionOk (snd (s', outChan))"
    by (rule runEvents_emissions [OF assms]) simp
  then show ?thesis
    by (simp add: list_all_iff emissionOk_iff)
qed

theorem emitted_resource_witness:
  "runEvents exampleParse
     [TickEvent (Inr [\<lparr>SubscriptionContentType = ''Audit.Exchange''\<rparr>]) (clock 12 0),
      FetchEvent emptyClient] (freshWatcher, []) =
     Inr (freshWatcher\<lparr>contentTypeBusy := [AuditExchange \<mapsto> False],
                       lastRequestTime := [AuditExchange \<mapsto> clock 12 0]\<rparr>,
          [(exchangeRequest (clock 12 0))\<lparr>Response := Some []\<rparr>])
   \<and> (\<exists>request ct. Request ((exchangeRequest (clock 12 0))\<lparr>Response := Some []\<rparr>) = Some request
         \<and> RequestContentType request = Some ct)
   \<and> ((\<exists>recs. Response ((exchangeRequest (clock 12 0))\<lparr>Response := Some []\<rparr>) = Some recs)
       \<or> Errors ((exchangeRequest (clock 12 0))\<lparr>Response := Some []\<rparr>) \<noteq> [])"
proof -
  have run: "runEvents exampleParse
     [TickEvent (Inr [\<lparr>SubscriptionContentType = ''Audit.Exchange''\<rparr>]) (clock 12 0),
      FetchEvent emptyClient] (freshWatcher, []) =
     Inr (freshWatcher\<lparr>contentTypeBusy := [AuditExchange \<mapsto> False],
                       lastRequestTime := [AuditExchange \<mapsto> clock 12 0]\<rparr>,
          [(exchangeRequest (clock 12 0))\<lparr>Response := Some []\<rparr>])"
    apply (simp add: coldStart_tick fetcherReceive_def)
    apply (simp add: fetcherIteration_def fetchWindow_def
        example_defs time_defs store_defs resource_defs Let_def)
    done
  from emitted_resource_has_content_type [OF run] run show ?thesis
    by simp
qed

lemma concat_map_mem:
  "d \<in> set xs \<Longrightarrow> set (f d) \<subseteq> set (concat (map f xs))"
  by auto

lemma descriptor_fetched:
  assumes "parse (ContentCreated d) = Inr created" and "After created lastCreated"
    and "AuditList client (ContentID d) = Inr audits"
  shows "descriptorRecords parse client lastCreated d = audits"
    and "descriptorCalls parse lastCreated d = [AuditListCall (ContentID d)]"
    and "descriptorErrors parse client lastCreated d = []"
  using assms by (simp_all add: descriptorRecords_def descriptorCalls_def descriptorErrors_def)

lemma descriptor_failed:
  assumes "parse (ContentCreated c) = Inl err
           \<or> (\<exists>created. parse (ContentCreated c) = Inr created \<and> After created lastCreated
                 \<and> AuditList client (ContentID c) = Inl err)"
  shows "descriptorErrors parse client lastCreated c = [err]"
    and "descriptorRecords parse client lastCreated c = []"
  using assms by (auto simp: descriptorRecords_def descriptorErrors_def)

lemma fetcherIteration_outcome:
  assumes "Request r = Some request" and "RequestContentType request = Some ct"
    and "window = fetchWindow (config s) (getLastRequestTime s ct) (RequestTime request)"
    and "lastCreated = getLastContentCreated s ct"
    and "ContentList client ct (fst window) (snd window) = Inr content"
  shows "\<exists>res emitted.
           fetcherIteration parse client s outChan r = Inr res
         \<and> out res = outChan @ [emitted]
         \<and> Request emitted = Some request
         \<and> Errors emitted = Errors r @ concat (map (descriptorErrors parse client lastCreated) content)
         \<and> Response emitted = Some (concat (map (descriptorRecords parse client lastCreated) content))
         \<and> clientCalls res =
             ContentListCall ct (fst window) (snd window)
               # concat (map (descriptorCalls parse lastCreated) content)"
proof -
  define acc where "acc = contentLoop parse client ct (getLastContentCreated s ct) content
                 \<lparr>watcher = setLastRequestTime (setBusy s ct) ct (RequestTime request),
                  resource = r, records = [], calls = [ContentListCall ct (fst window) (snd window)]\<rparr>"
  have run: "fetcherIteration parse client s outChan r =
           Inr \<lparr>watcherAfter = unsetBusy (watcher acc) ct,
                out = outChan @ [SetResponse (resource acc) (records acc)],
                clientCalls = calls acc\<rparr>"
    by (rule fetcherIteration_listed [OF assms(1,2,3,5) acc_def])
  show ?thesis
    using assms(1,4)
    by (simp add: run SetResponse_def) (simp add: acc_def contentLoop_outcome)
qed

text \<open>
  C7. In a fetch whose listing holds a descriptor \<open>c\<close> that fails (its timestamp does not
  parse, or it passes the watermark check and \<open>Audit.List\<close> fails), the fetcher still
  sends the Resource: the failure is in its error list, the descriptors before and after
  \<open>c\<close> contribute their errors, records and \<open>Audit.List\<close> calls as they do without
  \<open>c\<close>, and the records of every descriptor whose \<open>Audit.List\<close> succeeded are in the
  response.
\<close>

theorem descriptor_failure_does_not_abort_resource:
  assumes "Request r = Some request" and "RequestContentType request = Some ct"
    and "window = fetchWindow (config s) (getLastRequestTime s ct) (RequestTime request)"
    and "lastCreated = getLastContentCreated s ct"
    and "ContentList client ct (fst window) (snd window) = Inr (pre @ c # post)"
    and "parse (ContentCreated c) = Inl err
         \<or> (\<exists>created. parse (ContentCreated c) = Inr created \<and> After created lastCreated
               \<and> AuditList client (ContentID c) = Inl err)"
  shows "\<exists>res emitted.
           fetcherIteration parse client s outChan r = Inr res
         \<and> out res = outChan @ [emitted]
         \<and> Errors emitted =
             Errors r @ concat (map (descriptorErrors parse client lastCreated) pre) @ [err]
               @ concat (map (descriptorErrors parse client lastCreated) post)
         \<and> Response emitted =
             Some (concat (map (descriptorRecords parse client lastCreated) pre)
                   @ concat (map (descriptorRecords parse client lastCreated) post))
         \<and> clientCalls res =
             ContentListCall ct (fst window) (snd window)
               # concat (map (descriptorCalls parse lastCreated) pre)
               @ descriptorCalls parse lastCreated c
               @ concat (map (descriptorCalls parse lastCreated) post)
         \<and> (\<forall>d \<in> set pre \<union> set post. \<forall>created audits.
               parse (ContentCreated d) = Inr created \<and> After created lastCreated
               \<and> AuditList client (ContentID d) = Inr audits
               \<longrightarrow> AuditListCall (ContentID d) \<in> set (clientCalls res)
                 \<and> set audits \<subseteq> (case Response emitted of None \<Rightarrow> {} | Some recs \<Rightarrow> set recs))"
proof -
  let ?E = "descriptorErrors parse client lastCreated"
  let ?R = "descriptorRecords parse client lastCreated"
  let ?C = "descriptorCalls parse lastCreated"
  from fetcherIteration_outcome [OF assms(1-5), of parse outChan]
  obtain res emitted where run: "fetcherIteration parse client s outChan r = Inr res"
    and sent: "out res = outChan @ [emitted]"
    and errs: "Errors emitted = Errors r @ concat (map ?E (pre @ c # post))"
    and recs: "Response emitted = Some (concat (map ?R (pre @ c # post)))"
    and calls: "clientCalls res = ContentListCall ct (fst window) (snd window) # concat (map ?C (pre @ c # post))"
    by blast
  have failed: "?E c = [err]" "?R c = []"
    using assms(6) by (rule descriptor_failed [where parse = parse and c = c])+
  have isolated: "AuditListCall (ContentID d) \<in> set (clientCalls res)
        \<and> set audits \<subseteq> (case Response emitted of None \<Rightarrow> {} | Some recs \<Rightarrow> set recs)"
    if d: "d \<in> set pre \<union> set post" and ok: "parse (ContentCreated d) = Inr created"
      "After created lastCreated" "AuditList client (ContentID d) = Inr audits"
    for d created audits
  proof -
    from d have mem: "d \<in> set (pre @ c # post)" by auto
    have "set (?R d) \<subseteq> set (concat (map ?R (pre @ c # post)))"
      by (rule concat_map_mem [OF mem])
    moreover have "set (?C d) \<subseteq> set (concat (map ?C (pre @ c # post)))"
      by (rule concat_map_mem [OF mem])
    ultimately show ?thesis
      using descriptor_fetched [where parse = parse and d = d, OF ok] by (simp add: recs calls)
  qed
  have "Errors emitted = Errors r @ concat (map ?E pre) @ [err] @ concat (map ?E post)"
    by (simp add: errs failed)
  moreover have "Response emitted = Some (concat (map ?R pre) @ concat (map ?R post))"
    by (simp add: recs failed)
  moreover have "clientCalls res = ContentListCall ct (fst window) (snd window)
      # concat (map ?C pre) @ ?C c @ concat (map ?C post)"
    by (simp add: calls)
  ultimately show ?thesis
    using run sent isolated by blast
qed

lemma warm_window:
  "fetchWindow (config warmWatcher) (getLastRequestTime warmWatcher AuditExchange) (clock 12 5) =
     (clock 11 5, clock 12 5)"
  by (simp add: fetchWindow_def example_defs time_defs getLastRequestTime_def Let_def)

lemma warm_lastCreated: "getLastContentCreated warmWatcher AuditExchange = clock 11 30"
  by (simp add: warmWatcher_def getLastContentCreated_def)

lemma exampleParse_values:
  "exampleParse ''2024-01-01T11:30:00.000Z'' = Inr (clock 11 30)"
  "exampleParse ''2024-01-01T12:01:00.000Z'' = Inr (clock 12 1)"
  "exampleParse ''2024-01-01T12:02:00.000Z'' = Inr (clock 12 2)"
  "exampleParse ''2024-01-01T12:03:00.000Z'' = Inr (clock 12 3)"
  by (simp_all add: exampleParse_def)

theorem descriptor_failure_witness:
  "\<exists>res emitted.
     fetcherIteration exampleParse flakyClient warmWatcher [] (exchangeRequest (clock 12 5)) = Inr res
   \<and> out res = [emitted]
   \<and> Errors emitted = [''audit error'']
   \<and> Response emitted = Some [auditRecord ''C2'']
   \<and> clientCalls res =
       [ContentListCall AuditExchange (clock 11 5) (clock 12 5),
        AuditListCall ''C1'', AuditListCall ''C2'']"
proof -
  let ?c1 = "descriptor ''C1'' ''2024-01-01T12:01:00.000Z''"
  let ?c2 = "descriptor ''C2'' ''2024-01-01T12:02:00.000Z''"
  let ?request = "\<lparr>RequestContentType = Some AuditExchange, RequestTime = clock 12 5\<rparr>"
  have h1: "Request (exchangeRequest (clock 12 5)) = Some ?request"
    by (simp add: exchangeRequest_def)
  have h2: "RequestContentType ?request = Some AuditExchange" by simp
  have h3: "(clock 11 5, clock 12 5) =
      fetchWindow (config warmWatcher) (getLastRequestTime warmWatcher AuditExchange) (RequestTime ?request)"
    by (simp add: warm_window)
  have h4: "clock 11 30 = getLastContentCreated warmWatcher AuditExchange"
    by (simp add: warm_lastCreated)
  have h5: "ContentList flakyClient AuditExchange (fst (clock 11 5, clock 12 5)) (snd (clock 11 5, clock 12 5))
      = Inr ([] @ ?c1 # [?c2])"
    by (simp add: flakyClient_def)
  have h6: "exampleParse (ContentCreated ?c1) = Inl ''audit error''
      \<or> (\<exists>created. exampleParse (ContentCreated ?c1) = Inr created \<and> After created (clock 11 30)
            \<and> AuditList flakyClient (ContentID ?c1) = Inl ''audit error'')"
    by (simp add: descriptor_def exampleParse_values flakyClient_def After_def clock_def)
  from descriptor_failure_does_not_abort_resource
    [where parse = exampleParse and client = flakyClient and s = warmWatcher
       and r = "exchangeRequest (clock 12 5)" and request = ?request and ct = AuditExchange
       and window = "(clock 11 5, clock 12 5)" and lastCreated = "clock 11 30"
       and pre = "[]" and c = ?c1 and post = "[?c2]" and err = "''audit error''"
       and outChan = "[]", OF h1 h2 h3 h4 h5 h6]
  show ?thesis
    by (auto simp: descriptorErrors_def descriptorRecords_def descriptorCalls_def descriptor_def
        exampleParse_values flakyClient_def After_def clock_def exchangeRequest_def)
qed

lemma contentStep_skip:
  "parse (ContentCreated c) = Inr created \<Longrightarrow> created \<le> lastCreated
     \<Longrightarrow> contentStep parse client ct lastCreated acc c = acc"
  by (simp add: contentStep_def After_def)

lemma contentStep_fetch:
  assumes "parse (ContentCreated c) = Inr created" and "lastCreated < created"
  shows "lastContentCreated (watcher (contentStep parse client ct lastCreated acc c)) ct =
           Some (case lastContentCreated (watcher acc) ct of None \<Rightarrow> created | Some v \<Rightarrow> max v created)"
    and "calls (contentStep parse client ct lastCreated acc c) =
           calls acc @ [AuditListCall (ContentID c)]"
    and "AuditList client (ContentID c) = Inr audits \<Longrightarrow>
           records (contentStep parse client ct lastCreated acc c) = records acc @ audits
         \<and> resource (contentStep parse client ct lastCreated acc c) = resource acc"
    and "AuditList client (ContentID c) = Inl err \<Longrightarrow>
           records (contentStep parse client ct lastCreated acc c) = records acc
         \<and> resource (contentStep parse client ct lastCreated acc c) = AddError (resource acc) err"
  using assms
  by (simp_all add: contentStep_def After_def Let_def lastContentCreated_set split: sum.splits)

text \<open>
  C5, as stated, fails. The listing holds C2 (created 12:02) before C1 (created 12:01)
  and the watermark read before the listing is 11:30. After C2 the stored watermark is
  12:02, so C1's creation time is below it; yet \<open>Audit.List\<close> is called for C1, its
  record is in the response, and the stored watermark stays at 12:02 instead of becoming
  C1's 12:01.
\<close>

theorem descriptor_below_stored_watermark_is_fetched:
  "fetcherIteration exampleParse unorderedClient warmWatcher [] (exchangeRequest (clock 12 5)) =
     Inr \<lparr>watcherAfter =
            warmWatcher\<lparr>lastContentCreated := [AuditExchange \<mapsto> clock 12 2],
                        lastRequestTime := [AuditExchange \<mapsto> clock 12 5]\<rparr>,
          out = [(exchangeRequest (clock 12 5))
                   \<lparr>Response := Some [auditRecord ''C2'', auditRecord ''C1'']\<rparr>],
          clientCalls =
            [ContentListCall AuditExchange (clock 11 5) (clock 12 5),
             AuditListCall ''C2'', AuditListCall ''C1'']\<rparr>
   \<and> getLastContentCreated warmWatcher AuditExchange = clock 11 30
   \<and> getLastContentCreated
         (watcher (contentStep exampleParse unorderedClient AuditExchange (clock 11 30)
            \<lparr>watcher = warmWatcher, resource = exchangeRequest (clock 12 5),
             records = [], calls = []\<rparr>
            (descriptor ''C2'' ''2024-01-01T12:02:00.000Z''))) AuditExchange = clock 12 2
   \<and> exampleParse (ContentCreated (descriptor ''C1'' ''2024-01-01T12:01:00.000Z'')) = Inr (clock 12 1)
   \<and> clock 12 1 \<le> clock 12 2
   \<and> clock 12 1 \<noteq> clock 12 2"
  apply (simp add: fetcherIteration_def warm_window warm_lastCreated exchangeRequest_def
      setBusy_frame Let_def)
  apply (simp add: unorderedClient_def contentStep_def descriptor_def exampleParse_values Let_def
      store_defs resource_defs fetchWindow_def example_defs time_defs)
  done

text \<open>
  C5 (amended). In a fetch whose listing succeeded, each descriptor is handled at its
  turn by the loop body with \<open>lastCreated\<close>, the value of \<open>lastContentCreated\<close> read
  before the listing. A descriptor whose parsed creation time is at most \<open>lastCreated\<close>
  changes nothing: no call, no record, no error, no update. For any other descriptor the
  stored watermark becomes the maximum of the stored value and the creation time (the
  creation time when nothing is stored), \<open>Audit.List\<close> is called once, and its records
  are appended to the response, or its error to the error list.
\<close>

theorem descriptor_checked_against_value_read_before_listing:
  assumes "Request r = Some request" and "RequestContentType request = Some ct"
    and "window = fetchWindow (config s) (getLastRequestTime s ct) (RequestTime request)"
    and "lastCreated = getLastContentCreated s ct"
    and "ContentList client ct (fst window) (snd window) = Inr (pre @ c # post)"
    and "parse (ContentCreated c) = Inr created"
    and "accBefore = contentLoop parse client ct lastCreated pre
           \<lparr>watcher = setLastRequestTime (setBusy s ct) ct (RequestTime request),
            resource = r, records = [],
            calls = [ContentListCall ct (fst window) (snd window)]\<rparr>"
    and "accAfter = contentStep parse client ct lastCreated accBefore c"
  shows "\<exists>res final.
           fetcherIteration parse client s outChan r = Inr res
         \<and> final = contentLoop parse client ct lastCreated post accAfter
         \<and> watcherAfter res = unsetBusy (watcher final) ct
         \<and> out res = outChan @ [SetResponse (resource final) (records final)]
         \<and> clientCalls res = calls final
         \<and> (if created \<le> lastCreated then accAfter = accBefore
             else lastContentCreated (watcher accAfter) ct =
                    Some (case lastContentCreated (watcher accBefore) ct of
                            None \<Rightarrow> created | Some v \<Rightarrow> max v created)
                \<and> calls accAfter = calls accBefore @ [AuditListCall (ContentID c)]
                \<and> (case AuditList client (ContentID c) of
                      Inr audits \<Rightarrow>
                        records accAfter = records accBefore @ audits
                        \<and> resource accAfter = resource accBefore
                    | Inl err \<Rightarrow>
                        records accAfter = records accBefore
                        \<and> resource accAfter = AddError (resource accBefore) err))"
proof -
  define final where "final = contentLoop parse client ct lastCreated post accAfter"
  have loop: "final = contentLoop parse client ct (getLastContentCreated s ct) (pre @ c # post)
           \<lparr>watcher = setLastRequestTime (setBusy s ct) ct (RequestTime request),
            resource = r, records = [],
            calls = [ContentListCall ct (fst window) (snd window)]\<rparr>"
    by (simp add: final_def assms(4,7,8) contentLoop_append)
  have run: "fetcherIteration parse client s outChan r =
           Inr \<lparr>watcherAfter = unsetBusy (watcher final) ct,
                out = outChan @ [SetResponse (resource final) (records final)],
                clientCalls = calls final\<rparr>"
    by (rule fetcherIteration_listed [OF assms(1,2,3,5) loop])
  have step: "if created \<le> lastCreated then accAfter = accBefore
             else lastContentCreated (watcher accAfter) ct =
                    Some (case lastContentCreated (watcher accBefore) ct of
                            None \<Rightarrow> created | Some v \<Rightarrow> max v created)
                \<and> calls accAfter = calls accBefore @ [AuditListCall (ContentID c)]
                \<and> (case AuditList client (ContentID c) of
                      Inr audits \<Rightarrow>
                        records accAfter = records accBefore @ audits
                        \<and> resource accAfter = resource accBefore
                    | Inl err \<Rightarrow>
                        records accAfter = records accBefore
                        \<and> resource accAfter = AddError (resource accBefore) err)"
  proof (cases "created \<le> lastCreated")
    case True
    then show ?thesis
      using assms(6) by (simp add: assms(8) contentStep_skip)
  next
    case False
    then have lt: "lastCreated < created" by simp
    show ?thesis
      using False contentStep_fetch [where parse = parse and c = c and client = client
          and ct = ct and acc = accBefore, OF assms(6) lt]
      by (simp add: assms(8) split: sum.splits)
  qed
  show ?thesis
    using run step final_def by simp
qed

lemma unorderedBefore_values:
  "lastContentCreated (watcher unorderedBefore) AuditExchange = Some (clock 12 2)"
  "records unorderedBefore = [auditRecord ''C2'']"
  "calls unorderedBefore =
     [ContentListCall AuditExchange (clock 11 5) (clock 12 5), AuditListCall ''C2'']"
  by (simp_all add: unorderedBefore_def warmStart_def contentStep_def unorderedClient_def
      descriptor_def exampleParse_values After_def clock_def store_defs warmWatcher_def
      Before_def Let_def)

theorem descriptor_checked_witness:
  "\<exists>res.
     fetcherIteration exampleParse unorderedClient warmWatcher [] (exchangeRequest (clock 12 5)) = Inr res
   \<and> watcherAfter res = unsetBusy (watcher unorderedAfter) AuditExchange
   \<and> out res = [SetResponse (resource unorderedAfter) (records unorderedAfter)]
   \<and> clientCalls res = calls unorderedAfter
   \<and> lastContentCreated (watcher unorderedBefore) AuditExchange = Some (clock 12 2)
   \<and> lastContentCreated (watcher unorderedAfter) AuditExchange = Some (max (clock 12 2) (clock 12 1))
   \<and> calls unorderedAfter = calls unorderedBefore @ [AuditListCall ''C1'']
   \<and> records unorderedAfter = records unorderedBefore @ [auditRecord ''C1'']
   \<and> resource unorderedAfter = resource unorderedBefore"
proof -
  let ?c1 = "descriptor ''C1'' ''2024-01-01T12:01:00.000Z''"
  let ?c2 = "descriptor ''C2'' ''2024-01-01T12:02:00.000Z''"
  let ?request = "\<lparr>RequestContentType = Some AuditExchange, RequestTime = clock 12 5\<rparr>"
  have h1: "Request (exchangeRequest (clock 12 5)) = Some ?request"
    by (simp add: exchangeRequest_def)
  have h2: "RequestContentType ?request = Some AuditExchange" by simp
  have h3: "(clock 11 5, clock 12 5) =
      fetchWindow (config warmWatcher) (getLastRequestTime warmWatcher AuditExchange) (RequestTime ?request)"
    by (simp add: warm_window)
  have h4: "clock 11 30 = getLastContentCreated warmWatcher AuditExchange"
    by (simp add: warm_lastCreated)
  have h5: "ContentList unorderedClient AuditExchange (fst (clock 11 5, clock 12 5)) (snd (clock 11 5, clock 12 5))
      = Inr ([?c2] @ ?c1 # [])"
    by (simp add: unorderedClient_def)
  have h6: "exampleParse (ContentCreated ?c1) = Inr (clock 12 1)"
    by (simp add: descriptor_def exampleParse_values)
  have h7: "unorderedBefore = contentLoop exampleParse unorderedClient AuditExchange (clock 11 30) [?c2]
           \<lparr>watcher = setLastRequestTime (setBusy warmWatcher AuditExchange) AuditExchange (RequestTime ?request),
            resource = exchangeRequest (clock 12 5), records = [],
            calls = [ContentListCall AuditExchange (fst (clock 11 5, clock 12 5)) (snd (clock 11 5, clock 12 5))]\<rparr>"
    by (simp add: unorderedBefore_def warmStart_def)
  have h8: "unorderedAfter = contentStep exampleParse unorderedClient AuditExchange (clock 11 30) unorderedBefore ?c1"
    by (simp add: unorderedAfter_def)
  have audit: "AuditList unorderedClient (ContentID ?c1) = Inr [auditRecord ''C1'']"
    by (simp add: unorderedClient_def descriptor_def)
  have later: "\<not> clock 12 1 \<le> clock 11 30" by (simp add: clock_def)
  from descriptor_checked_against_value_read_before_listing
    [where parse = exampleParse and client = unorderedClient and s = warmWatcher
       and r = "exchangeRequest (clock 12 5)" and request = ?request and ct = AuditExchange
       and window = "(clock 11 5, clock 12 5)" and lastCreated = "clock 11 30"
       and pre = "[?c2]" and c = ?c1 and post = "[]" and created = "clock 12 1"
       and accBefore = unorderedBefore and accAfter = unorderedAfter
       and outChan = "[]", OF h1 h2 h3 h4 h5 h6 h7 h8]
  show ?thesis
    using later audit by (auto simp: unorderedBefore_values descriptor_def)
qed

lemma sendResourceOrSkip_queue:
  "\<exists>added. queue (sendResourceOrSkip s r) = queue s @ added \<and> set added \<subseteq> {r}"
  by (simp add: sendResourceOrSkip_def)

lemma isBusy_queue: "queue (snd (isBusy s ct)) = queue s"
  by (simp add: isBusy_def split: option.splits)

lemma subscriptionStep_queue:
  assumes "subscriptionStep t (res, s) sub = (res', s')"
  shows "\<exists>added more. queue s' = queue s @ added \<and> set added \<subseteq> {res'}
           \<and> Errors res' = Errors res @ more"
proof (cases "GetContentType (SubscriptionContentType sub)")
  case (Inl err)
  with assms have res': "res' = AddError res err" and s': "s' = sendResourceOrSkip s res'"
    by (auto simp: subscriptionStep_def Let_def)
  from sendResourceOrSkip_queue [of s res'] s' res' show ?thesis
    by (auto simp: AddError_def)
next
  case (Inr ct)
  obtain busy s1 where b: "isBusy s ct = (busy, s1)" by (cases "isBusy s ct")
  then have q1: "queue s1 = queue s" using isBusy_queue [of s ct] by simp
  show ?thesis
  proof (cases busy)
    case True
    with assms Inr b have "res' = res" "s' = s1" by (auto simp: subscriptionStep_def)
    with q1 show ?thesis by simp
  next
    case False
    with assms Inr b have res': "res' = SetRequest res ct t" and s': "s' = sendResourceOrSkip s1 res'"
      by (auto simp: subscriptionStep_def Let_def)
    from sendResourceOrSkip_queue [of s1 res'] s' res' q1 show ?thesis
      by (auto simp: SetRequest_def)
  qed
qed

lemma subscriptionLoop_append:
  "subscriptionLoop t (xs @ ys) acc = subscriptionLoop t ys (subscriptionLoop t xs acc)"
  by (induction xs arbitrary: acc) simp_all

lemma subscriptionLoop_queue:
  "subscriptionLoop t subs (res, s) = (res', s') \<Longrightarrow>
     \<exists>added. queue s' = queue s @ added
       \<and> (\<forall>r \<in> set added. \<exists>more. Errors r = Errors res @ more)
       \<and> (\<exists>more. Errors res' = Errors res @ more)"
proof (induction subs arbitrary: res s)
  case Nil
  then show ?case by simp
next
  case (Cons sub subs)
  obtain res1 s1 where step: "subscriptionStep t (res, s) sub = (res1, s1)"
    by (cases "subscriptionStep t (res, s) sub")
  from subscriptionStep_queue [OF step]
  obtain added1 more1 where a1: "queue s1 = queue s @ added1" "set added1 \<subseteq> {res1}"
    "Errors res1 = Errors res @ more1" by blast
  from Cons.prems step have "subscriptionLoop t subs (res1, s1) = (res', s')" by simp
  from Cons.IH [OF this]
  obtain added2 where a2: "queue s' = queue s1 @ added2"
    "\<forall>r \<in> set added2. \<exists>more. Errors r = Errors res1 @ more"
    "\<exists>more. Errors res' = Errors res1 @ more" by blast
  have "queue s' = queue s @ (added1 @ added2)" using a1 a2 by simp
  moreover have "\<forall>r \<in> set (added1 @ added2). \<exists>more. Errors r = Errors res @ more"
    using a1 a2 by auto
  moreover have "\<exists>more. Errors res' = Errors res @ more"
    using a1 a2 by auto
  ultimately show ?case by blast
qed

text \<open>
  C10. The tick keeps one \<open>resource\<close> for the whole loop over the subscriptions. Once
  the content type of a subscription \<open>bad\<close> fails to resolve, the error is appended to
  that Resource, and every Resource put on the bus from then on in the same tick (the one
  sent for \<open>bad\<close> and those sent for the subscriptions after it, valid ones included)
  has an error list that starts with the errors accumulated before and this error.
\<close>

theorem resolution_error_carried_by_later_resources:
  assumes "GetContentType (SubscriptionContentType bad) = Inl err"
    and "subscriptionLoop t pre (emptyResource, s) = (res1, s1)"
  shows "\<exists>added. queue (generatorTick s (Inr (pre @ bad # post)) t) = queue s1 @ added
           \<and> (\<forall>r \<in> set added. \<exists>more. Errors r = Errors res1 @ err # more)"
proof -
  define res2 where "res2 = AddError res1 err"
  define s2 where "s2 = sendResourceOrSkip s1 res2"
  have step: "subscriptionStep t (res1, s1) bad = (res2, s2)"
    using assms(1) by (simp add: subscriptionStep_def Let_def res2_def s2_def)
  obtain res3 s3 where rest: "subscriptionLoop t post (res2, s2) = (res3, s3)"
    by (cases "subscriptionLoop t post (res2, s2)")
  have tick: "generatorTick s (Inr (pre @ bad # post)) t = s3"
    using assms(2) step rest by (simp add: generatorTick_def subscriptionLoop_append)
  from sendResourceOrSkip_queue [of s1 res2]
  obtain added1 where a1: "queue s2 = queue s1 @ added1" "set added1 \<subseteq> {res2}"
    by (auto simp: s2_def)
  from subscriptionLoop_queue [OF rest]
  obtain added2 where a2: "queue s3 = queue s2 @ added2"
    "\<forall>r \<in> set added2. \<exists>more. Errors r = Errors res2 @ more" by blast
  have e2: "Errors res2 = Errors res1 @ [err]" by (simp add: res2_def AddError_def)
  have "queue s3 = queue s1 @ (added1 @ added2)" using a1 a2 by simp
  moreover have "\<forall>r \<in> set (added1 @ added2). \<exists>more. Errors r = Errors res1 @ err # more"
    using a1 a2 e2 by auto
  ultimately show ?thesis unfolding tick by blast
qed

theorem resolution_error_witness:
  "queue (generatorTick freshWatcher
      (Inr ([] @ \<lparr>SubscriptionContentType = ''Audit.Unknown''\<rparr>
              # [\<lparr>SubscriptionContentType = ''Audit.Exchange''\<rparr>])) (clock 12 0)) =
     [\<lparr>Request = None, Response = None, Errors = [''ContentType invalid'']\<rparr>,
      \<lparr>Request = Some \<lparr>RequestContentType = Some AuditExchange, RequestTime = clock 12 0\<rparr>,
       Response = None, Errors = [''ContentType invalid'']\<rparr>]
   \<and> (\<exists>added. queue (generatorTick freshWatcher
          (Inr ([] @ \<lparr>SubscriptionContentType = ''Audit.Unknown''\<rparr>
                  # [\<lparr>SubscriptionContentType = ''Audit.Exchange''\<rparr>])) (clock 12 0)) =
          queue freshWatcher @ added
        \<and> (\<forall>r \<in> set added. \<exists>more. Errors r = Errors emptyResource @ ''ContentType invalid'' # more))"
proof -
  have bad: "GetContentType (SubscriptionContentType \<lparr>SubscriptionContentType = ''Audit.Unknown''\<rparr>)
      = Inl ''ContentType invalid''"
    by (simp add: GetContentType_def contentTypes_def)
  have pre: "subscriptionLoop (clock 12 0) [] (emptyResource, freshWatcher) = (emptyResource, freshWatcher)"
    by simp
  have eval: "queue (generatorTick freshWatcher
      (Inr ([] @ \<lparr>SubscriptionContentType = ''Audit.Unknown''\<rparr>
              # [\<lparr>SubscriptionContentType = ''Audit.Exchange''\<rparr>])) (clock 12 0)) =
     [\<lparr>Request = None, Response = None, Errors = [''ContentType invalid'']\<rparr>,
      \<lparr>Request = Some \<lparr>RequestContentType = Some AuditExchange, RequestTime = clock 12 0\<rparr>,
       Response = None, Errors = [''ContentType invalid'']\<rparr>]"
    by (simp add: generatorTick_def subscriptionStep_def GetContentType_def contentTypes_def
        store_defs resource_defs freshWatcher_def Let_def)
  from resolution_error_carried_by_later_resources [OF bad pre] eval
  show ?thesis by blast
qed

lemma watermarkAtLeast_set:
  "watermarkAtLeast (setLastContentCreated s ct t) ct t"
  by (simp add: watermarkAtLeast_def lastContentCreated_set split: option.splits)

lemma watermarkAtLeast_set_keeps:
  "watermarkAtLeast s ct t \<Longrightarrow> watermarkAtLeast (setLastContentCreated s ct' t') ct t"
  by (auto simp: watermarkAtLeast_def lastContentCreated_set split: option.splits)

lemma watermarkAtLeast_cong:
  "lastContentCreated s' = lastContentCreated s \<Longrightarrow>
     watermarkAtLeast s' ct t = watermarkAtLeast s ct t"
  by (simp add: watermarkAtLeast_def)

lemma watermarkAtLeast_read:
  "watermarkAtLeast s ct t \<Longrightarrow> t \<le> getLastContentCreated s ct"
  by (simp add: watermarkAtLeast_def getLastContentCreated_def split: option.splits)

lemma contentStep_keeps:
  "watermarkAtLeast (watcher acc) ct' t \<Longrightarrow>
     watermarkAtLeast (watcher (contentStep parse client ct w acc c)) ct' t"
  by (simp add: contentStep_def Let_def watermarkAtLeast_set_keeps split: sum.splits)

lemma contentLoop_keeps:
  "watermarkAtLeast (watcher acc) ct' t \<Longrightarrow>
     watermarkAtLeast (watcher (contentLoop parse client ct w content acc)) ct' t"
  by (induction content arbitrary: acc) (simp_all add: contentStep_keeps)

lemma contentStep_raises:
  "parse (ContentCreated c) = Inr created \<Longrightarrow> After created w \<Longrightarrow>
     watermarkAtLeast (watcher (contentStep parse client ct w acc c)) ct created"
  by (simp add: contentStep_def Let_def watermarkAtLeast_set split: sum.splits)

lemma contentLoop_raises:
  assumes "c \<in> set content" and "parse (ContentCreated c) = Inr created" and "After created w"
  shows "watermarkAtLeast (watcher (contentLoop parse client ct w content acc)) ct created"
proof -
  from assms(1) obtain pre post where split: "content = pre @ c # post"
    by (auto simp: in_set_conv_decomp)
  have "watermarkAtLeast
          (watcher (contentStep parse client ct w (contentLoop parse client ct w pre acc) c)) ct created"
    using assms(2,3) by (rule contentStep_raises)
  then show ?thesis
    by (simp add: split contentLoop_append contentLoop_keeps)
qed

lemma sendResourceOrSkip_watermark:
  "lastContentCreated (sendResourceOrSkip s r) = lastContentCreated s"
  by (simp add: sendResourceOrSkip_def)

lemma isBusy_watermark: "lastContentCreated (snd (isBusy s ct)) = lastContentCreated s"
  by (simp add: isBusy_def split: option.splits)

lemma subscriptionStep_watermark:
  "lastContentCreated (snd (subscriptionStep t acc sub)) = lastContentCreated (snd acc)"
proof (cases acc)
  case (Pair res s)
  show ?thesis
  proof (cases "GetContentType (SubscriptionContentType sub)")
    case (Inl err)
    with Pair show ?thesis
      by (simp add: subscriptionStep_def Let_def sendResourceOrSkip_watermark)
  next
    case (Inr ct)
    obtain busy s1 where b: "isBusy s ct = (busy, s1)" by (cases "isBusy s ct")
    then have "lastContentCreated s1 = lastContentCreated s"
      using isBusy_watermark [of s ct] by simp
    with Pair Inr b show ?thesis
      by (simp add: subscriptionStep_def Let_def sendResourceOrSkip_watermark)
  qed
qed

lemma subscriptionLoop_watermark:
  "lastContentCreated (snd (subscriptionLoop t subs acc)) = lastContentCreated (snd acc)"
  by (induction subs arbitrary: acc) (simp_all add: subscriptionStep_watermark)

lemma generatorTick_watermark:
  "lastContentCreated (generatorTick s listed t) = lastContentCreated s"
  by (cases listed)
    (simp_all add: generatorTick_def sendResourceOrSkip_watermark subscriptionLoop_watermark)

lemma fetcherIteration_keeps:
  assumes "fetcherIteration parse client s outChan r = Inr res"
    and "lastContentCreated s = lastContentCreated s0"
    and "watermarkAtLeast s0 ct' t"
  shows "watermarkAtLeast (watcherAfter res) ct' t"
proof (cases "Request r")
  case None
  with assms(1) show ?thesis by (simp add: fetcherIteration_def)
next
  case (Some request)
  show ?thesis
  proof (cases "RequestContentType request")
    case None
    with Some assms(1) show ?thesis by (simp add: fetcherIteration_def)
  next
    case ct: (Some ct)
    let ?w = "fetchWindow (config s) (getLastRequestTime s ct) (RequestTime request)"
    have start: "watermarkAtLeast s ct' t"
      using assms(2,3) by (simp add: watermarkAtLeast_def)
    show ?thesis
    proof (cases "ContentList client ct (fst ?w) (snd ?w)")
      case (Inl err)
      from fetcherIteration_list_failed [OF Some ct refl Inl, of parse outChan] assms(1)
      have "watcherAfter res = unsetBusy (setBusy s ct) ct" by auto
      then show ?thesis
        using start by (simp add: watermarkAtLeast_def unsetBusy_frame setBusy_frame)
    next
      case (Inr content)
      define acc0 where "acc0 = \<lparr>watcher = setLastRequestTime (setBusy s ct) ct (RequestTime request),
                  resource = r, records = [], calls = [ContentListCall ct (fst ?w) (snd ?w)]\<rparr>"
      define acc where "acc = contentLoop parse client ct (getLastContentCreated s ct) content acc0"
      from fetcherIteration_listed [OF Some ct refl Inr, of acc parse outChan] assms(1)
      have after: "watcherAfter res = unsetBusy (watcher acc) ct"
        by (auto simp: acc_def acc0_def)
      have "lastContentCreated (watcher acc0) = lastContentCreated s"
        by (simp add: acc0_def setLastRequestTime_def setBusy_frame split: option.splits)
      then have "watermarkAtLeast (watcher acc0) ct' t"
        using start by (simp add: watermarkAtLeast_def)
      then have "watermarkAtLeast (watcher acc) ct' t"
        unfolding acc_def by (rule contentLoop_keeps)
      then show ?thesis
        by (simp add: after watermarkAtLeast_def unsetBusy_frame)
    qed
  qed
qed

lemma runEvents_keeps:
  "runEvents parse events st = Inr st' \<Longrightarrow> watermarkAtLeast (fst st) ct t
     \<Longrightarrow> watermarkAtLeast (fst st') ct t"
proof (induction parse events st rule: runEvents.induct)
  case (1 parse st)
  then show ?case by simp
next
  case (2 parse listed t' es st)
  have "watermarkAtLeast (generatorTick (fst st) listed t') ct t"
    using "2.prems"(2) by (simp add: watermarkAtLeast_def generatorTick_watermark)
  with 2 show ?case by simp
next
  case (3 parse client es st)
  show ?case
  proof (cases "fetcherReceive parse client (fst st) (snd st)")
    case None
    with 3 show ?thesis by simp
  next
    case (Some result)
    show ?thesis
    proof (cases result)
      case (Inl f)
      with Some 3 show ?thesis by simp
    next
      case (Inr res)
      from Some Inr obtain r rest where q: "queue (fst st) = r # rest"
        and it: "fetcherIteration parse client ((fst st)\<lparr>queue := rest\<rparr>) (snd st) r = Inr res"
        by (auto simp: fetcherReceive_def split: list.splits)
      have "watermarkAtLeast (watcherAfter res) ct t"
        by (rule fetcherIteration_keeps [OF it _ "3.prems"(2)]) simp
      with 3 Some Inr show ?thesis by simp
    qed
  qed
qed

lemma descriptor_skipped:
  assumes "parse (ContentCreated c) = Inr created" and "created \<le> lastCreated"
  shows "descriptorErrors parse client lastCreated c = []"
    and "descriptorRecords parse client lastCreated c = []"
    and "descriptorCalls parse lastCreated c = []"
  using assms by (simp_all add: descriptorErrors_def descriptorRecords_def descriptorCalls_def After_def)

lemma fetcherIteration_raises:
  assumes "Request r = Some request" and "RequestContentType request = Some ct"
    and "window = fetchWindow (config s) (getLastRequestTime s ct) (RequestTime request)"
    and "ContentList client ct (fst window) (snd window) = Inr content"
    and "c \<in> set content" and "parse (ContentCreated c) = Inr created"
    and "After created (getLastContentCreated s ct)"
    and "fetcherIteration parse client s outChan r = Inr res"
  shows "watermarkAtLeast (watcherAfter res) ct created"
proof -
  define acc where "acc = contentLoop parse client ct (getLastContentCreated s ct) content
                 \<lparr>watcher = setLastRequestTime (setBusy s ct) ct (RequestTime request),
                  resource = r, records = [], calls = [ContentListCall ct (fst window) (snd window)]\<rparr>"
  from fetcherIteration_listed [OF assms(1-4) acc_def, of outChan] assms(8)
  have after: "watcherAfter res = unsetBusy (watcher acc) ct" by auto
  have "watermarkAtLeast (watcher acc) ct created"
    unfolding acc_def using assms(5,6,7) by (rule contentLoop_raises)
  then show ?thesis
    by (simp add: after watermarkAtLeast_def unsetBusy_frame)
qed

text \<open>
  C9. A descriptor \<open>c\<close> that passes the watermark check in a fetch has its creation time
  stored as a lower bound of \<open>lastContentCreated\<close> whatever \<open>Audit.List\<close> answers,
  because the update stands before the call. When \<open>Audit.List\<close> fails for \<open>c\<close>, the
  fetch emits none of its records, and after any further run of ticks and fetches the
  stored watermark is still at least its creation time: a later fetch of the same content
  type whose listing holds \<open>c\<close> again makes the calls and emits the records and errors of
  the listing without \<open>c\<close>.
\<close>

theorem failed_descriptor_is_never_retried:
  assumes "Request r1 = Some request1" and "RequestContentType request1 = Some ct"
    and "window1 = fetchWindow (config s) (getLastRequestTime s ct) (RequestTime request1)"
    and "ContentList client1 ct (fst window1) (snd window1) = Inr content1"
    and "c \<in> set content1"
    and "parse (ContentCreated c) = Inr created"
    and "After created (getLastContentCreated s ct)"
    and "AuditList client1 (ContentID c) = Inl err"
    and "fetcherIteration parse client1 s outChan r1 = Inr res1"
    and "runEvents parse events (watcherAfter res1, out res1) = Inr (s2, outChan2)"
    and "Request r2 = Some request2" and "RequestContentType request2 = Some ct"
    and "window2 = fetchWindow (config s2) (getLastRequestTime s2 ct) (RequestTime request2)"
    and "lastCreated2 = getLastContentCreated s2 ct"
    and "ContentList client2 ct (fst window2) (snd window2) = Inr (pre @ c # post)"
  shows "watermarkAtLeast (watcherAfter res1) ct created
       \<and> descriptorRecords parse client1 (getLastContentCreated s ct) c = []
       \<and> created \<le> lastCreated2
       \<and> (\<exists>res2 emitted.
             fetcherIteration parse client2 s2 outChan2 r2 = Inr res2
           \<and> out res2 = outChan2 @ [emitted]
           \<and> clientCalls res2 =
               ContentListCall ct (fst window2) (snd window2)
                 # concat (map (descriptorCalls parse lastCreated2) (pre @ post))
           \<and> Response emitted =
               Some (concat (map (descriptorRecords parse client2 lastCreated2) (pre @ post)))
           \<and> Errors emitted =
               Errors r2 @ concat (map (descriptorErrors parse client2 lastCreated2) (pre @ post)))"
proof -
  have raised: "watermarkAtLeast (watcherAfter res1) ct created"
    by (rule fetcherIteration_raises [OF assms(1-7) assms(9)])
  have none: "descriptorRecords parse client1 (getLastContentCreated s ct) c = []"
    using assms(6,8) by (simp add: descriptorRecords_def)
  have "watermarkAtLeast (fst (s2, outChan2)) ct created"
    by (rule runEvents_keeps [OF assms(10)]) (simp add: raised)
  then have below: "created \<le> lastCreated2"
    by (simp add: assms(14) watermarkAtLeast_read)
  note skipped = descriptor_skipped [where parse = parse and c = c, OF assms(6) below]
  from fetcherIteration_outcome [OF assms(11,12,13,14,15), of parse outChan2]
  have "\<exists>res2 emitted.
             fetcherIteration parse client2 s2 outChan2 r2 = Inr res2
           \<and> out res2 = outChan2 @ [emitted]
           \<and> clientCalls res2 =
               ContentListCall ct (fst window2) (snd window2)
                 # concat (map (descriptorCalls parse lastCreated2) (pre @ post))
           \<and> Response emitted =
               Some (concat (map (descriptorRecords parse client2 lastCreated2) (pre @ post)))
           \<and> Errors emitted =
               Errors r2 @ concat (map (descriptorErrors parse client2 lastCreated2) (pre @ post))"
    by (auto simp: skipped)
  with raised none below show ?thesis by blast
qed

lemma flaky_fetch:
  "fetcherIteration exampleParse flakyClient warmWatcher [] (exchangeRequest (clock 12 5)) =
     Inr flakyResult"
  apply (simp add: fetcherIteration_def warm_window warm_lastCreated exchangeRequest_def
      setBusy_frame Let_def)
  apply (simp add: flakyClient_def contentStep_def descriptor_def exampleParse_values Let_def
      store_defs resource_defs fetchWindow_def example_defs time_defs flakyResult_def)
  done

lemma later_tick:
  "runEvents exampleParse
     [TickEvent (Inr [\<lparr>SubscriptionContentType = ''Audit.Exchange''\<rparr>]) (clock 12 10)]
     (watcherAfter flakyResult, out flakyResult) = Inr (laterWatcher, out flakyResult)"
  by (simp add: generatorTick_def subscriptionStep_def GetContentType_def contentTypes_def
      store_defs resource_defs flakyResult_def laterWatcher_def warmWatcher_def
      exchangeRequest_def Let_def)

lemma later_window:
  "fetchWindow (config laterWatcher) (getLastRequestTime laterWatcher AuditExchange) (clock 12 10) =
     (clock 11 10, clock 12 10)"
  by (simp add: fetchWindow_def laterWatcher_def flakyResult_def example_defs time_defs
      getLastRequestTime_def Let_def)

lemma later_lastCreated: "getLastContentCreated laterWatcher AuditExchange = clock 12 2"
  by (simp add: laterWatcher_def flakyResult_def warmWatcher_def getLastContentCreated_def)

theorem failed_descriptor_witness:
  "fetcherIteration exampleParse flakyClient warmWatcher [] (exchangeRequest (clock 12 5)) =
     Inr flakyResult
   \<and> runEvents exampleParse
       [TickEvent (Inr [\<lparr>SubscriptionContentType = ''Audit.Exchange''\<rparr>]) (clock 12 10)]
       (watcherAfter flakyResult, out flakyResult) = Inr (laterWatcher, out flakyResult)
   \<and> AuditList recoveredClient ''C1'' = Inr [auditRecord ''C1'']
   \<and> clock 12 1 \<le> getLastContentCreated laterWatcher AuditExchange
   \<and> (\<exists>res2 emitted.
         fetcherIteration exampleParse recoveredClient laterWatcher (out flakyResult)
           (exchangeRequest (clock 12 10)) = Inr res2
       \<and> out res2 = out flakyResult @ [emitted]
       \<and> clientCalls res2 =
           [ContentListCall AuditExchange (clock 11 10) (clock 12 10), AuditListCall ''C3'']
       \<and> Response emitted = Some [auditRecord ''C3''])"
proof -
  let ?c1 = "descriptor ''C1'' ''2024-01-01T12:01:00.000Z''"
  let ?c2 = "descriptor ''C2'' ''2024-01-01T12:02:00.000Z''"
  let ?c3 = "descriptor ''C3'' ''2024-01-01T12:03:00.000Z''"
  let ?request1 = "\<lparr>RequestContentType = Some AuditExchange, RequestTime = clock 12 5\<rparr>"
  let ?request2 = "\<lparr>RequestContentType = Some AuditExchange, RequestTime = clock 12 10\<rparr>"
  have h1: "Request (exchangeRequest (clock 12 5)) = Some ?request1"
    by (simp add: exchangeRequest_def)
  have h2: "RequestContentType ?request1 = Some AuditExchange" by simp
  have h3: "(clock 11 5, clock 12 5) =
      fetchWindow (config warmWatcher) (getLastRequestTime warmWatcher AuditExchange) (RequestTime ?request1)"
    by (simp add: warm_window)
  have h4: "ContentList flakyClient AuditExchange (fst (clock 11 5, clock 12 5)) (snd (clock 11 5, clock 12 5))
      = Inr [?c1, ?c2]"
    by (simp add: flakyClient_def)
  have h5: "?c1 \<in> set [?c1, ?c2]" by simp
  have h6: "exampleParse (ContentCreated ?c1) = Inr (clock 12 1)"
    by (simp add: descriptor_def exampleParse_values)
  have h7: "After (clock 12 1) (getLastContentCreated warmWatcher AuditExchange)"
    by (simp add: warm_lastCreated After_def clock_def)
  have h8: "AuditList flakyClient (ContentID ?c1) = Inl ''audit error''"
    by (simp add: flakyClient_def descriptor_def)
  have h11: "Request (exchangeRequest (clock 12 10)) = Some ?request2"
    by (simp add: exchangeRequest_def)
  have h12: "RequestContentType ?request2 = Some AuditExchange" by simp
  have h13: "(clock 11 10, clock 12 10) =
      fetchWindow (config laterWatcher) (getLastRequestTime laterWatcher AuditExchange) (RequestTime ?request2)"
    by (simp add: later_window)
  have h14: "clock 12 2 = getLastContentCreated laterWatcher AuditExchange"
    by (simp add: later_lastCreated)
  have h15: "ContentList recoveredClient AuditExchange (fst (clock 11 10, clock 12 10)) (snd (clock 11 10, clock 12 10))
      = Inr ([] @ ?c1 # [?c3])"
    by (simp add: recoveredClient_def)
  have recovered: "AuditList recoveredClient ''C1'' = Inr [auditRecord ''C1'']"
    by (simp add: recoveredClient_def)
  from failed_descriptor_is_never_retried
    [where parse = exampleParse and s = warmWatcher and ct = AuditExchange
       and ?r1.0 = "exchangeRequest (clock 12 5)" and ?request1.0 = ?request1
       and ?window1.0 = "(clock 11 5, clock 12 5)" and ?client1.0 = flakyClient
       and ?content1.0 = "[?c1, ?c2]" and c = ?c1 and created = "clock 12 1"
       and err = "''audit error''" and outChan = "[]" and ?res1.0 = flakyResult
       and events = "[TickEvent (Inr [\<lparr>SubscriptionContentType = ''Audit.Exchange''\<rparr>]) (clock 12 10)]"
       and ?s2.0 = laterWatcher and ?outChan2.0 = "out flakyResult"
       and ?r2.0 = "exchangeRequest (clock 12 10)" and ?request2.0 = ?request2
       and ?window2.0 = "(clock 11 10, clock 12 10)" and ?lastCreated2.0 = "clock 12 2"
       and ?client2.0 = recoveredClient and pre = "[]" and post = "[?c3]",
     OF h1 h2 h3 h4 h5 h6 h7 h8 flaky_fetch later_tick h11 h12 h13 h14 h15]
  show ?thesis
    using flaky_fetch later_tick recovered
    by (auto simp: later_lastCreated descriptorRecords_def descriptorCalls_def descriptor_def
        exampleParse_values recoveredClient_def After_def clock_def)
qed

end
